theory Spec2Isabelle
  imports Main "HOL-Library.Sublist"
begin

section \<open>The loader-script generator of building-utils/index-html\<close>

text \<open>
  The module \<^verbatim>\<open>packages/building-utils/index-html/loader-script.js\<close> builds the source
  text of a bootstrap script from a description of the entries and polyfills of a page.
  Every function of the module is a pure string builder; the embedding below follows the
  module function by function, with JavaScript strings as \<^typ>\<open>string\<close>.
\<close>

subsection \<open>Data model\<close>

text \<open>
  The fields \<^verbatim>\<open>polyfillDynamicImport\<close> and \<^verbatim>\<open>module\<close> are optional booleans that the code
  inspects with \<^verbatim>\<open>=== false\<close> and \<^verbatim>\<open>Boolean(...)\<close>. To keep the difference between the
  boolean \<^verbatim>\<open>false\<close> and the other falsy values visible they are modelled as JavaScript
  values (numbers restricted to integers).
\<close>

datatype jsval = JSUndefined | JSNull | JSBoolean bool | JSNumber int | JSString string

text \<open>\<^verbatim>\<open>Boolean(v)\<close>: the truthiness of a JavaScript value.\<close>

fun Boolean :: "jsval \<Rightarrow> bool" where
  "Boolean JSUndefined = False"
| "Boolean JSNull = False"
| "Boolean (JSBoolean b) = b"
| "Boolean (JSNumber n) = (n \<noteq> 0)"
| "Boolean (JSString s) = (s \<noteq> [])"

text \<open>A boolean interpolated into a template literal.\<close>

definition string_of_boolean :: "bool \<Rightarrow> string" where
  "string_of_boolean b = (if b then ''true'' else ''false'')"

text \<open>
  A parameter with a default value, \<^verbatim>\<open>function f(x = d)\<close>: the default replaces an absent
  argument.
\<close>

definition default_arg :: "'a \<Rightarrow> 'a option \<Rightarrow> 'a" where
  "default_arg d arg = (case arg of None \<Rightarrow> d | Some v \<Rightarrow> v)"

text \<open>
  The typedef \<^verbatim>\<open>EntriesConfig\<close> restricts \<^verbatim>\<open>type\<close> to the three keys of the table
  \<^verbatim>\<open>entryLoaderCreators\<close>.
\<close>

datatype entries_type = Script | Module | System

record EntriesConfig =
  type :: entries_type
  files :: "string list"
  polyfillDynamicImport :: jsval

text \<open>
  A polyfill descriptor. \<^verbatim>\<open>test\<close> is a string or absent; the fields read only by the
  filename resolver live in the extension part of the record.
\<close>

record Polyfill =
  test :: "string option"
  module :: jsval

text \<open>\<^verbatim>\<open>!polyfill.test\<close> is false exactly for a present, non-empty string.\<close>

definition truthy_test :: "string option \<Rightarrow> bool" where
  "truthy_test t = (case t of None \<Rightarrow> False | Some s \<Rightarrow> s \<noteq> [])"

subsection \<open>The loadScript helper\<close>

definition loadScriptFunction :: string where
  "loadScriptFunction =
    ''\<newline>'' @
    ''  function loadScript(src, module) {\<newline>'' @
    ''    return new Promise(function (resolve, reject) {\<newline>'' @
    ''      document.head.appendChild(Object.assign(\<newline>'' @
    ''        document.createElement('script'),\<newline>'' @
    ''        { src: src, onload: resolve, onerror: reject },\<newline>'' @
    ''        module ? { type: 'module' } : undefined\<newline>'' @
    ''      ));\<newline>'' @
    ''    });\<newline>'' @
    ''  }\<newline>\<newline>''"

definition createLoadScriptFunction ::
  "('a EntriesConfig_scheme) \<Rightarrow> ('b EntriesConfig_scheme) option \<Rightarrow> 'p list option \<Rightarrow> string" where
  "createLoadScriptFunction entries legacyEntries polyfills =
    (if (case polyfills of None \<Rightarrow> False | Some ps \<Rightarrow> length ps > 0) then loadScriptFunction
     else if type entries = Script \<or>
        (case legacyEntries of None \<Rightarrow> False | Some l \<Rightarrow> type l = Script)
     then loadScriptFunction
     else [])"

subsection \<open>Entry loader expressions\<close>

text \<open>\<^verbatim>\<open>Array.prototype.join\<close> on an array of strings.\<close>

fun join :: "string \<Rightarrow> string list \<Rightarrow> string" where
  "join sep [] = []"
| "join sep [x] = x"
| "join sep (x # y # ys) = x @ sep @ join sep (y # ys)"

definition asArrayLiteral :: "string list \<Rightarrow> string" where
  "asArrayLiteral arr = ''['' @ join '','' (map (\<lambda>e. CHR 0x27 # e @ [CHR 0x27]) arr) @ '']''"

text \<open>
  The table \<^verbatim>\<open>entryLoaderCreators\<close>, indexed by the entries type. The \<^verbatim>\<open>script\<close> and
  \<^verbatim>\<open>system\<close> creators take one parameter and ignore a second argument.
\<close>

fun entryLoaderCreators :: "entries_type \<Rightarrow> string list \<Rightarrow> jsval \<Rightarrow> string" where
  "entryLoaderCreators Script files' polyfillDynamicImport' =
    (if length files' = 1
     then ''loadScript('' @ CHR 0x27 # files' ! 0 @ CHR 0x27 # '')''
     else asArrayLiteral files' @ ''.forEach(function (entry) { loadScript(entry); })'')"
| "entryLoaderCreators Module files' polyfillDynamicImport' =
    (let importFunction =
       (if polyfillDynamicImport' = JSBoolean False then ''import'' else ''window.importShim'')
     in if length files' = 1
        then importFunction @ ''('' @ CHR 0x27 # files' ! 0 @ CHR 0x27 # '')''
        else asArrayLiteral files' @ ''.forEach(function (entry) { '' @ importFunction @
             ''(entry); })'')"
| "entryLoaderCreators System files' polyfillDynamicImport' =
    (if length files' = 1
     then ''System.import('' @ CHR 0x27 # files' ! 0 @ CHR 0x27 # '')''
     else asArrayLiteral files' @ ''.forEach(function (entry) { System.import(entry); })'')"

text \<open>
  \<^verbatim>\<open>cleanImportPath\<close> comes from \<^verbatim>\<open>./utils\<close>; it is a parameter of the functions that
  call it. The legacy creator is called with the files only, so its second parameter is
  \<^verbatim>\<open>undefined\<close>.
\<close>

definition createEntriesLoaderFunction ::
  "(string \<Rightarrow> string \<Rightarrow> string) \<Rightarrow> EntriesConfig \<Rightarrow> EntriesConfig option \<Rightarrow> string \<Rightarrow> string" where
  "createEntriesLoaderFunction cleanImportPath entries legacyEntries publicPath =
    (let importPath = (\<lambda>path. cleanImportPath path publicPath) in
     case legacyEntries of
       None \<Rightarrow>
         entryLoaderCreators (type entries) (map importPath (files entries))
           (polyfillDynamicImport entries) @ '';''
     | Some legacy \<Rightarrow>
         (let load = entryLoaderCreators (type entries) (map importPath (files entries))
                (polyfillDynamicImport entries);
              loadLegacy = entryLoaderCreators (type legacy) (map importPath (files legacy))
                JSUndefined
          in CHR 0x27 # ''noModule' in HTMLScriptElement.prototype ? '' @ load @ '' : '' @
             loadLegacy @ '';''))"

definition createExecuteLoadEntries :: "'p list option \<Rightarrow> string" where
  "createExecuteLoadEntries polyfills =
    (if (case polyfills of None \<Rightarrow> False | Some ps \<Rightarrow> length ps \<noteq> 0)
     then ''polyfills.length ? Promise.all(polyfills).then(loadEntries) : loadEntries();''
     else ''loadEntries()'')"

definition createEntriesLoader ::
  "(string \<Rightarrow> string \<Rightarrow> string) \<Rightarrow> EntriesConfig \<Rightarrow> EntriesConfig option \<Rightarrow> 'p list option \<Rightarrow>
   string \<Rightarrow> string" where
  "createEntriesLoader cleanImportPath entries legacyEntries polyfills publicPath =
    (let loadEntriesFunction =
           createEntriesLoaderFunction cleanImportPath entries legacyEntries publicPath;
         executeLoadEntries = createExecuteLoadEntries polyfills
     in ''\<newline>'' @
        ''  function loadEntries() {\<newline>'' @
        ''    '' @ loadEntriesFunction @ ''\<newline>'' @
        ''  }\<newline>'' @
        ''\<newline>'' @
        ''  '' @ executeLoadEntries @ ''\<newline>'')"

subsection \<open>Polyfills loader\<close>

text \<open>
  \<^verbatim>\<open>polyfillFilename\<close> comes from \<^verbatim>\<open>./utils\<close> and is a parameter. The \<^verbatim>\<open>forEach\<close> loop
  that appends to \<^verbatim>\<open>code\<close> is a left fold over the polyfills; \<^verbatim>\<open>polyfills_step\<close> is the
  body of its callback.
\<close>

definition polyfills_step ::
  "('a Polyfill_scheme \<Rightarrow> 'c \<Rightarrow> string) \<Rightarrow> 'c \<Rightarrow> string \<Rightarrow> string \<Rightarrow> 'a Polyfill_scheme \<Rightarrow> string" where
  "polyfills_step polyfillFilename polyfillsConfig publicPath code polyfill =
    (if \<not> truthy_test (test polyfill) then code
     else code @ ''  if ('' @ the (test polyfill) @
          '') { polyfills.push(loadScript('' @ CHR 0x27 # publicPath @ ''polyfills/'' @
          polyfillFilename polyfill polyfillsConfig @ ''.js', '' @
          string_of_boolean (Boolean (module polyfill)) @ '')) }\<newline>'')"

definition createPolyfillsLoader ::
  "('a Polyfill_scheme \<Rightarrow> 'c \<Rightarrow> string) \<Rightarrow> 'a Polyfill_scheme list option \<Rightarrow> 'c \<Rightarrow> string \<Rightarrow> string" where
  "createPolyfillsLoader polyfillFilename polyfills polyfillsConfig publicPath =
    (case polyfills of
       None \<Rightarrow> []
     | Some ps \<Rightarrow>
         foldl (polyfills_step polyfillFilename polyfillsConfig publicPath)
           ''  var polyfills = [];\<newline>'' ps)"

subsection \<open>Top-level assemblers\<close>

text \<open>
  \<^verbatim>\<open>Terser.minify(code).code\<close> is the external minifier, a parameter that returns the
  minified text or fails.
\<close>

definition createLoaderScript ::
  "(string \<Rightarrow> 'e + string) \<Rightarrow> (string \<Rightarrow> string \<Rightarrow> string) \<Rightarrow> ('a Polyfill_scheme \<Rightarrow> 'c \<Rightarrow> string) \<Rightarrow>
   EntriesConfig \<Rightarrow> EntriesConfig option \<Rightarrow> 'a Polyfill_scheme list option \<Rightarrow> 'c \<Rightarrow>
   bool option \<Rightarrow> string \<Rightarrow> 'e + string" where
  "createLoaderScript Terser_minify cleanImportPath polyfillFilename
      entries legacyEntries polyfills polyfillsConfig minified publicPath =
    (let code =
           ''(function() {'' @
           createLoadScriptFunction entries legacyEntries polyfills @
           createPolyfillsLoader polyfillFilename polyfills polyfillsConfig publicPath @
           createEntriesLoader cleanImportPath entries legacyEntries polyfills publicPath @
           ''})();''
     in if default_arg True minified then Terser_minify code else Inr code)"

definition createPolyfillsLoaderScript ::
  "('a Polyfill_scheme \<Rightarrow> 'c \<Rightarrow> string) \<Rightarrow> 'a Polyfill_scheme list option \<Rightarrow> 'c \<Rightarrow>
   string option \<Rightarrow> string \<Rightarrow> string" where
  "createPolyfillsLoaderScript polyfillFilename polyfills polyfillsConfig funcName publicPath =
    ''function '' @ default_arg ''loadPolyfills'' funcName @ ''() {'' @
    loadScriptFunction @
    createPolyfillsLoader polyfillFilename polyfills polyfillsConfig publicPath @
    ''return Promise.all(polyfills);\<newline>'' @
    ''}''"

subsection \<open>The conditional statement of the specification\<close>

text \<open>
  The specification gives the statement emitted for a tested polyfill as
  \<^verbatim>\<open>if (<test>) { polyfills.push(loadScript('<src>', <isModuleBool>)) }\<close>. This definition
  follows those words; \<^verbatim>\<open>polyfills_step\<close> above follows the code.
\<close>

definition polyfill_statement :: "string \<Rightarrow> string \<Rightarrow> bool \<Rightarrow> string" where
  "polyfill_statement testExpr src isModule =
    ''if ('' @ testExpr @ '') { polyfills.push(loadScript('' @ CHR 0x27 # src @ CHR 0x27 # '', '' @
    (if isModule then ''true'' else ''false'') @ '')) }''"

subsection \<open>Program text outside string literals\<close>


section \<open>Properties\<close>

subsection \<open>Shared facts\<close>

lemma loadScriptFunction_nonempty: "loadScriptFunction \<noteq> []"
  by (simp add: loadScriptFunction_def)

text \<open>The assembly of \<^verbatim>\<open>createLoaderScript\<close>, with the local \<^verbatim>\<open>code\<close> written out.\<close>

lemma createLoaderScript_code:
  "createLoaderScript Terser_minify cleanImportPath polyfillFilename
      entries legacyEntries polyfills polyfillsConfig minified publicPath =
   (if default_arg True minified then Terser_minify else Inr)
     (''(function() {'' @
      createLoadScriptFunction entries legacyEntries polyfills @
      createPolyfillsLoader polyfillFilename polyfills polyfillsConfig publicPath @
      createEntriesLoader cleanImportPath entries legacyEntries polyfills publicPath @
      ''})();'')"
  by (simp add: createLoaderScript_def Let_def)

subsection \<open>The single-file script example\<close>

text \<open>
  Claim C1, as the code has it. For the entries \<^verbatim>\<open>{type:'script', files:['a.js']}\<close>, no
  legacy entries, no polyfills argument and \<^verbatim>\<open>minified = false\<close>, the result of
  \<^verbatim>\<open>createLoaderScript\<close> is the opening \<^verbatim>\<open>(function() {\<close>, the whole text of the
  \<^verbatim>\<open>loadScript\<close> helper (the strategy is \<^verbatim>\<open>script\<close>), the declaration of \<^verbatim>\<open>loadEntries\<close>
  whose body is \<^verbatim>\<open>loadScript('<cleaned a.js>');\<close>, the call \<^verbatim>\<open>loadEntries()\<close> without a
  semicolon, and the closing \<^verbatim>\<open>})();\<close>. This holds for every path cleaner, public path
  and minifier.
\<close>

theorem createLoaderScript_single_script_example:
  "createLoaderScript Terser_minify cleanImportPath polyfillFilename
     \<lparr>type = Script, files = [''a.js''], polyfillDynamicImport = JSUndefined\<rparr>
     None None polyfillsConfig (Some False) publicPath =
   Inr (''(function() {'' @ loadScriptFunction @
        ''\<newline>  function loadEntries() {\<newline>    loadScript('' @
        CHR 0x27 # cleanImportPath ''a.js'' publicPath @
        CHR 0x27 # '');\<newline>  }\<newline>\<newline>  loadEntries()\<newline>})();'')"
  by (simp add: createLoaderScript_code default_arg_def createLoadScriptFunction_def
      createPolyfillsLoader_def createEntriesLoader_def createEntriesLoaderFunction_def
      createExecuteLoadEntries_def)

text \<open>
  Claim C1, as the spec words it: the result would be exactly the string
  \<^verbatim>\<open>(function() {loadEntries();})();\<close>. With a path cleaner that returns the path as it is
  and the minifier switched off, the result is a different string.
\<close>

theorem createLoaderScript_single_script_counterexample:
  "createLoaderScript (Inr :: string \<Rightarrow> unit + string) (\<lambda>path publicPath. path)
     (\<lambda>(polyfill :: Polyfill) (polyfillsConfig :: unit). [])
     \<lparr>type = Script, files = [''a.js''], polyfillDynamicImport = JSUndefined\<rparr>
     None None () (Some False) [] \<noteq> Inr ''(function() {loadEntries();})();''"
  by (simp add: createLoaderScript_code default_arg_def createLoadScriptFunction_def
      createPolyfillsLoader_def createEntriesLoader_def createEntriesLoaderFunction_def
      createExecuteLoadEntries_def loadScriptFunction_def)

subsection \<open>Absent and empty polyfills\<close>

text \<open>
  Claim C4. \<^verbatim>\<open>createPolyfillsLoader\<close> returns the empty string when the polyfills argument
  is absent, and only the declaration line \<^verbatim>\<open>var polyfills = [];\<close> when it is an empty
  sequence; the two results differ.
\<close>

theorem createPolyfillsLoader_absent_vs_empty:
  "createPolyfillsLoader polyfillFilename None polyfillsConfig publicPath = [] \<and>
   createPolyfillsLoader polyfillFilename (Some []) polyfillsConfig publicPath =
     ''  var polyfills = [];\<newline>'' \<and>
   createPolyfillsLoader polyfillFilename None polyfillsConfig publicPath \<noteq>
     createPolyfillsLoader polyfillFilename (Some []) polyfillsConfig publicPath"
  by (simp add: createPolyfillsLoader_def)

subsection \<open>Shared facts about the entries loader\<close>

lemma createEntriesLoader_code:
  "createEntriesLoader cleanImportPath entries legacyEntries polyfills publicPath =
     ''\<newline>  function loadEntries() {\<newline>    '' @
     createEntriesLoaderFunction cleanImportPath entries legacyEntries publicPath @
     ''\<newline>  }\<newline>\<newline>  '' @ createExecuteLoadEntries polyfills @ ''\<newline>''"
  by (simp add: createEntriesLoader_def Let_def)

lemma createExecuteLoadEntries_cases:
  "createExecuteLoadEntries polyfills =
     (if polyfills = None \<or> polyfills = Some [] then ''loadEntries()''
      else ''polyfills.length ? Promise.all(polyfills).then(loadEntries) : loadEntries();'')"
  by (cases polyfills) (simp_all add: createExecuteLoadEntries_def)

lemma createLoadScriptFunction_cases:
  "createLoadScriptFunction entries legacyEntries polyfills =
     (if (\<exists>p ps. polyfills = Some (p # ps)) \<or> type entries = Script \<or>
         (\<exists>legacy. legacyEntries = Some legacy \<and> type legacy = Script)
      then loadScriptFunction else [])"
  by (cases polyfills; cases legacyEntries)
     (auto simp add: createLoadScriptFunction_def neq_Nil_conv)

lemma createEntriesLoaderFunction_modern:
  "createEntriesLoaderFunction cleanImportPath entries None publicPath =
     entryLoaderCreators (type entries)
       (map (\<lambda>path. cleanImportPath path publicPath) (files entries))
       (polyfillDynamicImport entries) @ '';''"
  by (simp add: createEntriesLoaderFunction_def)

lemma createEntriesLoaderFunction_legacy:
  "createEntriesLoaderFunction cleanImportPath entries (Some legacy) publicPath =
     CHR 0x27 # ''noModule' in HTMLScriptElement.prototype ? '' @
     entryLoaderCreators (type entries)
       (map (\<lambda>path. cleanImportPath path publicPath) (files entries))
       (polyfillDynamicImport entries) @ '' : '' @
     entryLoaderCreators (type legacy)
       (map (\<lambda>path. cleanImportPath path publicPath) (files legacy)) JSUndefined @ '';''"
  by (simp add: createEntriesLoaderFunction_def Let_def)

subsection \<open>How the entries are executed\<close>

text \<open>
  Claim C2. The fragment that \<^verbatim>\<open>createLoaderScript\<close> places after the declaration of
  \<^verbatim>\<open>loadEntries\<close> is
  \<^verbatim>\<open>polyfills.length ? Promise.all(polyfills).then(loadEntries) : loadEntries();\<close> when
  polyfills are configured (the sequence is present and not empty), and the direct call
  \<^verbatim>\<open>loadEntries()\<close> otherwise. The second conjunct shows the fragment in its place in the
  assembled source, which is returned as it is or handed to the minifier.
\<close>

theorem createLoaderScript_executeLoadEntries:
  "createExecuteLoadEntries polyfills =
     (if polyfills = None \<or> polyfills = Some [] then ''loadEntries()''
      else ''polyfills.length ? Promise.all(polyfills).then(loadEntries) : loadEntries();'') \<and>
   createLoaderScript Terser_minify cleanImportPath polyfillFilename
      entries legacyEntries polyfills polyfillsConfig minified publicPath =
   (if default_arg True minified then Terser_minify else Inr)
     (''(function() {'' @
      createLoadScriptFunction entries legacyEntries polyfills @
      createPolyfillsLoader polyfillFilename polyfills polyfillsConfig publicPath @
      ''\<newline>  function loadEntries() {\<newline>    '' @
      createEntriesLoaderFunction cleanImportPath entries legacyEntries publicPath @
      ''\<newline>  }\<newline>\<newline>  '' @
      (if polyfills = None \<or> polyfills = Some [] then ''loadEntries()''
       else ''polyfills.length ? Promise.all(polyfills).then(loadEntries) : loadEntries();'') @
      ''\<newline>})();'')"
  unfolding createLoaderScript_code createEntriesLoader_code
  by (simp add: createExecuteLoadEntries_cases)

subsection \<open>When the loadScript helper is emitted\<close>

text \<open>
  Claim C5, as the code has it. \<^verbatim>\<open>createLoaderScript\<close> assembles a source text; that text
  is the result when \<^verbatim>\<open>minified\<close> is false, and is handed to the minifier, whose result is
  returned, when \<^verbatim>\<open>minified\<close> is true or omitted. In the assembled source the text of
  the \<^verbatim>\<open>loadScript\<close> helper is the fragment that follows the opening \<^verbatim>\<open>(function() {\<close>
  if and only if at least one polyfill is configured, or the modern entries use the
  \<^verbatim>\<open>script\<close> strategy, or legacy entries are present and use the \<^verbatim>\<open>script\<close> strategy;
  otherwise that fragment is empty.
\<close>


theorem createLoaderScript_loadScript_helper:
  "(createLoadScriptFunction entries legacyEntries polyfills = loadScriptFunction \<longleftrightarrow>
      (\<exists>p ps. polyfills = Some (p # ps)) \<or> type entries = Script \<or>
      (\<exists>legacy. legacyEntries = Some legacy \<and> type legacy = Script)) \<and>
   createLoaderScript Terser_minify cleanImportPath polyfillFilename
      entries legacyEntries polyfills polyfillsConfig minified publicPath =
   (if default_arg True minified then Terser_minify else Inr)
     (''(function() {'' @
      (if (\<exists>p ps. polyfills = Some (p # ps)) \<or> type entries = Script \<or>
          (\<exists>legacy. legacyEntries = Some legacy \<and> type legacy = Script)
       then loadScriptFunction else []) @
      createPolyfillsLoader polyfillFilename polyfills polyfillsConfig publicPath @
      createEntriesLoader cleanImportPath entries legacyEntries polyfills publicPath @
      ''})();'')"
proof -
  have frag: "createLoadScriptFunction entries legacyEntries polyfills = loadScriptFunction \<longleftrightarrow>
      (\<exists>p ps. polyfills = Some (p # ps)) \<or> type entries = Script \<or>
      (\<exists>legacy. legacyEntries = Some legacy \<and> type legacy = Script)"
    using loadScriptFunction_nonempty
    by (simp add: createLoadScriptFunction_cases [of entries legacyEntries polyfills])
  show ?thesis
    unfolding createLoaderScript_code
    using frag by (simp add: createLoadScriptFunction_cases [of entries legacyEntries polyfills])
qed

text \<open>
  Claim C5, as the spec words it, speaks of the output for every input. With
  \<^verbatim>\<open>minified\<close> omitted the output is what the minifier returns: for entries of type
  \<^verbatim>\<open>script\<close> and a minifier that drops blanks and line breaks, the helper text does not
  occur in the output although the strategy is \<^verbatim>\<open>script\<close>.
\<close>

theorem createLoaderScript_loadScript_helper_counterexample:
  "type \<lparr>type = Script, files = [''a.js''], polyfillDynamicImport = JSUndefined\<rparr> = Script \<and>
   (case createLoaderScript
        (\<lambda>code. Inr (filter (\<lambda>c. c \<noteq> CHR '' '' \<and> c \<noteq> CHR ''\<newline>'') code) :: unit + string)
        (\<lambda>path publicPath. path)
        (\<lambda>(polyfill :: Polyfill) (polyfillsConfig :: unit). [])
        \<lparr>type = Script, files = [''a.js''], polyfillDynamicImport = JSUndefined\<rparr>
        None None () None []
    of Inl failure \<Rightarrow> False
     | Inr output \<Rightarrow> \<not> sublist loadScriptFunction output)"
proof -
  have out: "createLoaderScript
        (\<lambda>code. Inr (filter (\<lambda>c. c \<noteq> CHR '' '' \<and> c \<noteq> CHR ''\<newline>'') code) :: unit + string)
        (\<lambda>path publicPath. path)
        (\<lambda>(polyfill :: Polyfill) (polyfillsConfig :: unit). [])
        \<lparr>type = Script, files = [''a.js''], polyfillDynamicImport = JSUndefined\<rparr>
        None None () None [] =
      Inr (filter (\<lambda>c. c \<noteq> CHR '' '' \<and> c \<noteq> CHR ''\<newline>'')
        (''(function() {'' @ loadScriptFunction @
         ''\<newline>  function loadEntries() {\<newline>    loadScript('a.js');\<newline>  }\<newline>\<newline>  loadEntries()\<newline>})();''))"
    by (simp add: createLoaderScript_code default_arg_def createLoadScriptFunction_def
        createPolyfillsLoader_def createEntriesLoader_def createEntriesLoaderFunction_def
        createExecuteLoadEntries_def)
  have "\<not> sublist loadScriptFunction (filter (\<lambda>c. c \<noteq> CHR '' '' \<and> c \<noteq> CHR ''\<newline>'') code)"
    for code
  proof
    assume "sublist loadScriptFunction (filter (\<lambda>c. c \<noteq> CHR '' '' \<and> c \<noteq> CHR ''\<newline>'') code)"
    then have "set loadScriptFunction \<subseteq> set (filter (\<lambda>c. c \<noteq> CHR '' '' \<and> c \<noteq> CHR ''\<newline>'') code)"
      by (rule set_mono_sublist)
    moreover have "CHR '' '' \<in> set loadScriptFunction"
      by (simp add: loadScriptFunction_def)
    ultimately show False by auto
  qed
  then have no_helper: "\<not> sublist loadScriptFunction
      (filter (\<lambda>c. c \<noteq> CHR '' '' \<and> c \<noteq> CHR ''\<newline>'')
        (''(function() {'' @ loadScriptFunction @
         ''\<newline>  function loadEntries() {\<newline>    loadScript('a.js');\<newline>  }\<newline>\<newline>  loadEntries()\<newline>})();''))"
    by blast
  have script: "type \<lparr>type = Script, files = [''a.js''], polyfillDynamicImport = JSUndefined\<rparr> = Script"
    by simp
  from script no_helper show ?thesis
    unfolding out by (simp only: sum.case simp_thms)
qed

subsection \<open>An empty polyfills sequence\<close>

text \<open>
  Claim C10, as the code has it. With a present but empty polyfills sequence the source
  assembled by \<^verbatim>\<open>createLoaderScript\<close> (the result when \<^verbatim>\<open>minified\<close> is false, the input
  of the minifier otherwise) holds the declaration \<^verbatim>\<open>var polyfills = [];\<close>, the helper only
  when the modern or the legacy entries use the \<^verbatim>\<open>script\<close> strategy, and the direct call
  \<^verbatim>\<open>loadEntries()\<close> instead of the \<^verbatim>\<open>Promise.all\<close> wrapper.
\<close>


theorem createLoaderScript_empty_polyfills:
  "createLoaderScript Terser_minify cleanImportPath polyfillFilename
      entries legacyEntries (Some []) polyfillsConfig minified publicPath =
   (if default_arg True minified then Terser_minify else Inr)
     (''(function() {'' @
      (if type entries = Script \<or> (\<exists>legacy. legacyEntries = Some legacy \<and> type legacy = Script)
       then loadScriptFunction else []) @
      ''  var polyfills = [];\<newline>'' @
      ''\<newline>  function loadEntries() {\<newline>    '' @
      createEntriesLoaderFunction cleanImportPath entries legacyEntries publicPath @
      ''\<newline>  }\<newline>\<newline>  loadEntries()\<newline>})();'')"
  unfolding createLoaderScript_code createEntriesLoader_code
  by (simp add: createLoadScriptFunction_cases createExecuteLoadEntries_cases
      createPolyfillsLoader_def)

text \<open>
  Claim C10, as the spec words it, says that the output contains the declaration. With
  \<^verbatim>\<open>minified\<close> omitted and a minifier that drops blanks and line breaks, the text
  \<^verbatim>\<open>var polyfills = [];\<close> does not occur in the output for an empty polyfills sequence.
\<close>

theorem createLoaderScript_empty_polyfills_counterexample:
  "(case createLoaderScript
        (\<lambda>code. Inr (filter (\<lambda>c. c \<noteq> CHR '' '' \<and> c \<noteq> CHR ''\<newline>'') code) :: unit + string)
        (\<lambda>path publicPath. path)
        (\<lambda>(polyfill :: Polyfill) (polyfillsConfig :: unit). [])
        \<lparr>type = Module, files = [''a.js''], polyfillDynamicImport = JSUndefined\<rparr>
        None (Some []) () None []
    of Inl failure \<Rightarrow> False
     | Inr output \<Rightarrow> \<not> sublist ''var polyfills = [];'' output)"
proof -
  have out: "createLoaderScript
        (\<lambda>code. Inr (filter (\<lambda>c. c \<noteq> CHR '' '' \<and> c \<noteq> CHR ''\<newline>'') code) :: unit + string)
        (\<lambda>path publicPath. path)
        (\<lambda>(polyfill :: Polyfill) (polyfillsConfig :: unit). [])
        \<lparr>type = Module, files = [''a.js''], polyfillDynamicImport = JSUndefined\<rparr>
        None (Some []) () None [] =
      Inr (filter (\<lambda>c. c \<noteq> CHR '' '' \<and> c \<noteq> CHR ''\<newline>'')
        (''(function() {  var polyfills = [];\<newline>'' @
         ''\<newline>  function loadEntries() {\<newline>    window.importShim('a.js');\<newline>  }\<newline>\<newline>  loadEntries()\<newline>})();''))"
    by (simp add: createLoaderScript_code default_arg_def createLoadScriptFunction_def
        createPolyfillsLoader_def createEntriesLoader_def createEntriesLoaderFunction_def
        createExecuteLoadEntries_def)
  have "\<not> sublist ''var polyfills = [];'' (filter (\<lambda>c. c \<noteq> CHR '' '' \<and> c \<noteq> CHR ''\<newline>'') code)"
    for code
  proof
    assume "sublist ''var polyfills = [];'' (filter (\<lambda>c. c \<noteq> CHR '' '' \<and> c \<noteq> CHR ''\<newline>'') code)"
    then have "set ''var polyfills = [];'' \<subseteq> set (filter (\<lambda>c. c \<noteq> CHR '' '' \<and> c \<noteq> CHR ''\<newline>'') code)"
      by (rule set_mono_sublist)
    then show False by auto
  qed
  then have no_declaration: "\<not> sublist ''var polyfills = [];''
      (filter (\<lambda>c. c \<noteq> CHR '' '' \<and> c \<noteq> CHR ''\<newline>'')
        (''(function() {  var polyfills = [];\<newline>'' @
         ''\<newline>  function loadEntries() {\<newline>    window.importShim('a.js');\<newline>  }\<newline>\<newline>  loadEntries()\<newline>})();''))"
    by blast
  then show ?thesis
    unfolding out by (simp only: sum.case simp_thms)
qed

subsection \<open>The import function of the module strategy\<close>

text \<open>
  Claim C6, as the code has it. The \<^verbatim>\<open>module\<close> creator uses the native \<^verbatim>\<open>import\<close>
  exactly when the flag it is given is the boolean \<^verbatim>\<open>false\<close>, and \<^verbatim>\<open>window.importShim\<close>
  for every other value, \<^verbatim>\<open>undefined\<close> included. For modern entries of type \<^verbatim>\<open>module\<close>
  the flag is their \<^verbatim>\<open>polyfillDynamicImport\<close> field, whether legacy entries are absent
  (the body is the modern expression and \<^verbatim>\<open>;\<close>) or present (the modern expression is the
  first branch of the ternary).
\<close>

theorem module_import_function:
  "entryLoaderCreators Module paths flag =
     (if flag = JSBoolean False
      then (if length paths = 1 then ''import('' @ CHR 0x27 # paths ! 0 @ CHR 0x27 # '')''
            else asArrayLiteral paths @ ''.forEach(function (entry) { import(entry); })'')
      else (if length paths = 1
            then ''window.importShim('' @ CHR 0x27 # paths ! 0 @ CHR 0x27 # '')''
            else asArrayLiteral paths @
                 ''.forEach(function (entry) { window.importShim(entry); })'')) \<and>
   (type entries = Module \<longrightarrow>
      (let importFunction =
             (if polyfillDynamicImport entries = JSBoolean False then ''import''
              else ''window.importShim'');
           paths = map (\<lambda>path. cleanImportPath path publicPath) (files entries);
           load = (if length paths = 1
                   then importFunction @ ''('' @ CHR 0x27 # paths ! 0 @ CHR 0x27 # '')''
                   else asArrayLiteral paths @ ''.forEach(function (entry) { '' @
                        importFunction @ ''(entry); })'')
       in createEntriesLoaderFunction cleanImportPath entries None publicPath = load @ '';'' \<and>
          createEntriesLoaderFunction cleanImportPath entries (Some legacy) publicPath =
            CHR 0x27 # ''noModule' in HTMLScriptElement.prototype ? '' @ load @ '' : '' @
            entryLoaderCreators (type legacy)
              (map (\<lambda>path. cleanImportPath path publicPath) (files legacy)) JSUndefined @
            '';''))"
  by (simp add: createEntriesLoaderFunction_modern createEntriesLoaderFunction_legacy Let_def)

theorem module_import_function_witness:
  "type \<lparr>type = Module, files = [''app.js''], polyfillDynamicImport = JSBoolean False\<rparr> = Module \<and>
   createEntriesLoaderFunction (\<lambda>path publicPath. path)
     \<lparr>type = Module, files = [''app.js''], polyfillDynamicImport = JSBoolean False\<rparr> None [] =
     ''import('app.js');'' \<and>
   createEntriesLoaderFunction (\<lambda>path publicPath. path)
     \<lparr>type = Module, files = [''app.js''], polyfillDynamicImport = JSBoolean False\<rparr>
     (Some \<lparr>type = System, files = [''old.js''], polyfillDynamicImport = JSUndefined\<rparr>) [] =
     CHR 0x27 # ''noModule' in HTMLScriptElement.prototype ? import('app.js') : System.import('old.js');'' \<and>
   type \<lparr>type = Module, files = [''app.js''], polyfillDynamicImport = JSNull\<rparr> = Module \<and>
   createEntriesLoaderFunction (\<lambda>path publicPath. path)
     \<lparr>type = Module, files = [''app.js''], polyfillDynamicImport = JSNull\<rparr> None [] =
     ''window.importShim('app.js');'' \<and>
   createEntriesLoaderFunction (\<lambda>path publicPath. path)
     \<lparr>type = Module, files = [''app.js''], polyfillDynamicImport = JSNull\<rparr>
     (Some \<lparr>type = System, files = [''old.js''], polyfillDynamicImport = JSUndefined\<rparr>) [] =
     CHR 0x27 # ''noModule' in HTMLScriptElement.prototype ? window.importShim('app.js') : System.import('old.js');''"
  using module_import_function [of "[]" JSUndefined
      "\<lparr>type = Module, files = [''app.js''], polyfillDynamicImport = JSBoolean False\<rparr>"
      "\<lambda>path publicPath. path" "[]"
      "\<lparr>type = System, files = [''old.js''], polyfillDynamicImport = JSUndefined\<rparr>"]
    module_import_function [of "[]" JSUndefined
      "\<lparr>type = Module, files = [''app.js''], polyfillDynamicImport = JSNull\<rparr>"
      "\<lambda>path publicPath. path" "[]"
      "\<lparr>type = System, files = [''old.js''], polyfillDynamicImport = JSUndefined\<rparr>"]
  by (simp add: Let_def)

text \<open>
  Claim C6, as the spec words it, is about every \<^verbatim>\<open>module\<close> entries configuration. A
  legacy configuration of type \<^verbatim>\<open>module\<close> whose \<^verbatim>\<open>polyfillDynamicImport\<close> is the boolean
  \<^verbatim>\<open>false\<close> is loaded through \<^verbatim>\<open>window.importShim\<close>, not through \<^verbatim>\<open>import\<close>.
\<close>

theorem module_import_function_counterexample:
  "type \<lparr>type = Module, files = [''old.js''], polyfillDynamicImport = JSBoolean False\<rparr> = Module \<and>
   polyfillDynamicImport
     \<lparr>type = Module, files = [''old.js''], polyfillDynamicImport = JSBoolean False\<rparr> =
     JSBoolean False \<and>
   createEntriesLoaderFunction (\<lambda>path publicPath. path)
     \<lparr>type = Script, files = [''app.js''], polyfillDynamicImport = JSUndefined\<rparr>
     (Some \<lparr>type = Module, files = [''old.js''], polyfillDynamicImport = JSBoolean False\<rparr>) [] =
   CHR 0x27 # ''noModule' in HTMLScriptElement.prototype ? loadScript('app.js') : window.importShim('old.js');''"
  by (simp add: createEntriesLoaderFunction_def)

subsection \<open>Legacy entries and the dynamic-import flag\<close>

text \<open>
  Claim C7. With legacy entries present, the legacy expression is the creator of the legacy
  type applied to the cleaned legacy files with no flag (the flag is \<^verbatim>\<open>undefined\<close>). The
  result therefore does not change when the \<^verbatim>\<open>polyfillDynamicImport\<close> field of the legacy
  entries is replaced by any value, and legacy entries of type \<^verbatim>\<open>module\<close> always load
  through \<^verbatim>\<open>window.importShim\<close>.
\<close>

theorem legacy_without_polyfillDynamicImport:
  "createEntriesLoaderFunction cleanImportPath entries (Some legacy) publicPath =
     CHR 0x27 # ''noModule' in HTMLScriptElement.prototype ? '' @
     entryLoaderCreators (type entries)
       (map (\<lambda>path. cleanImportPath path publicPath) (files entries))
       (polyfillDynamicImport entries) @ '' : '' @
     entryLoaderCreators (type legacy)
       (map (\<lambda>path. cleanImportPath path publicPath) (files legacy)) JSUndefined @ '';'' \<and>
   createEntriesLoaderFunction cleanImportPath entries
       (Some (legacy\<lparr>polyfillDynamicImport := flag\<rparr>)) publicPath =
     createEntriesLoaderFunction cleanImportPath entries (Some legacy) publicPath \<and>
   (type legacy = Module \<longrightarrow>
      entryLoaderCreators (type legacy)
        (map (\<lambda>path. cleanImportPath path publicPath) (files legacy)) JSUndefined =
      (if length (files legacy) = 1
       then ''window.importShim('' @ CHR 0x27 # cleanImportPath (files legacy ! 0) publicPath @
            CHR 0x27 # '')''
       else asArrayLiteral (map (\<lambda>path. cleanImportPath path publicPath) (files legacy)) @
            ''.forEach(function (entry) { window.importShim(entry); })''))"
  by (simp add: createEntriesLoaderFunction_legacy)

theorem legacy_without_polyfillDynamicImport_witness:
  "type \<lparr>type = Module, files = [''old.js''], polyfillDynamicImport = JSBoolean False\<rparr> = Module \<and>
   createEntriesLoaderFunction (\<lambda>path publicPath. path)
     \<lparr>type = Module, files = [''app.js''], polyfillDynamicImport = JSBoolean False\<rparr>
     (Some \<lparr>type = Module, files = [''old.js''], polyfillDynamicImport = JSBoolean False\<rparr>) [] =
   CHR 0x27 # ''noModule' in HTMLScriptElement.prototype ? import('app.js') : window.importShim('old.js');''"
  using legacy_without_polyfillDynamicImport [of "\<lambda>path publicPath. path"
      "\<lparr>type = Module, files = [''app.js''], polyfillDynamicImport = JSBoolean False\<rparr>"
      "\<lparr>type = Module, files = [''old.js''], polyfillDynamicImport = JSBoolean False\<rparr>"
      "[]" JSUndefined]
  by simp

subsection \<open>The polyfills loader emits one statement per tested polyfill, in order\<close>

lemma polyfills_step_append:
  "polyfills_step polyfillFilename polyfillsConfig publicPath code polyfill =
     code @
     (if truthy_test (test polyfill)
      then ''  '' @
           polyfill_statement (the (test polyfill))
             (publicPath @ ''polyfills/'' @ polyfillFilename polyfill polyfillsConfig @ ''.js'')
             (Boolean (module polyfill)) @
           ''\<newline>''
      else [])"
  by (simp add: polyfills_step_def polyfill_statement_def string_of_boolean_def)

lemma foldl_polyfills_step:
  "foldl (polyfills_step polyfillFilename polyfillsConfig publicPath) code ps =
     code @
     concat (map (\<lambda>polyfill.
       if truthy_test (test polyfill)
       then ''  '' @
            polyfill_statement (the (test polyfill))
              (publicPath @ ''polyfills/'' @ polyfillFilename polyfill polyfillsConfig @ ''.js'')
              (Boolean (module polyfill)) @
            ''\<newline>''
       else []) ps)"
proof (induction ps arbitrary: code)
  case Nil
  show ?case by simp
next
  case (Cons polyfill ps)
  let ?step = "polyfills_step polyfillFilename polyfillsConfig publicPath"
  have "foldl ?step code (polyfill # ps) = foldl ?step (?step code polyfill) ps"
    by simp
  also have "\<dots> = ?step code polyfill @
     concat (map (\<lambda>polyfill.
       if truthy_test (test polyfill)
       then ''  '' @
            polyfill_statement (the (test polyfill))
              (publicPath @ ''polyfills/'' @ polyfillFilename polyfill polyfillsConfig @ ''.js'')
              (Boolean (module polyfill)) @
            ''\<newline>''
       else []) ps)"
    by (rule Cons.IH)
  finally show ?case
    unfolding polyfills_step_append [of polyfillFilename polyfillsConfig publicPath code polyfill]
    by simp
qed

text \<open>
  Claim C8. For a present sequence of polyfills, the result of \<^verbatim>\<open>createPolyfillsLoader\<close> is
  the declaration line followed by the contributions of the polyfills in input order,
  nothing sorted and nothing dropped as a duplicate. A polyfill with a truthy \<^verbatim>\<open>test\<close>
  contributes exactly one line: two spaces, the statement
  \<^verbatim>\<open>if (<test>) { polyfills.push(loadScript('<publicPath>polyfills/<filename>.js', <bool>)) }\<close>
  with \<^verbatim>\<open><bool>\<close> the boolean coercion of its \<^verbatim>\<open>module\<close> field, and a line break. A
  polyfill with a falsy \<^verbatim>\<open>test\<close> (absent or the empty string) contributes nothing.
\<close>

theorem createPolyfillsLoader_in_order:
  "createPolyfillsLoader polyfillFilename (Some ps) polyfillsConfig publicPath =
     ''  var polyfills = [];\<newline>'' @
     concat (map (\<lambda>polyfill.
       if truthy_test (test polyfill)
       then ''  '' @
            polyfill_statement (the (test polyfill))
              (publicPath @ ''polyfills/'' @ polyfillFilename polyfill polyfillsConfig @ ''.js'')
              (Boolean (module polyfill)) @
            ''\<newline>''
       else []) ps)"
  by (simp add: createPolyfillsLoader_def foldl_polyfills_step)

subsection \<open>The polyfills loader function without a polyfills argument\<close>

text \<open>
  Claim C9. When the polyfills argument is absent, \<^verbatim>\<open>createPolyfillsLoaderScript\<close> returns
  the function header, the \<^verbatim>\<open>loadScript\<close> helper and \<^verbatim>\<open>return Promise.all(polyfills);\<close>,
  with nothing between the helper and the return statement. The statement
  \<^verbatim>\<open>return Promise.all(polyfills);\<close> occurs in the result, and the declaration
  \<^verbatim>\<open>var polyfills = [];\<close> occurs nowhere in it, whenever the function name holds no
  \<^verbatim>\<open>=\<close> character (no JavaScript identifier does).
\<close>

theorem createPolyfillsLoaderScript_absent:
  "createPolyfillsLoaderScript polyfillFilename None polyfillsConfig funcName publicPath =
     ''function '' @ default_arg ''loadPolyfills'' funcName @ ''() {'' @ loadScriptFunction @
     ''return Promise.all(polyfills);\<newline>}'' \<and>
   sublist ''return Promise.all(polyfills);''
     (createPolyfillsLoaderScript polyfillFilename None polyfillsConfig funcName publicPath) \<and>
   (CHR ''='' \<notin> set (default_arg ''loadPolyfills'' funcName) \<longrightarrow>
      \<not> sublist ''var polyfills = [];''
        (createPolyfillsLoaderScript polyfillFilename None polyfillsConfig funcName publicPath))"
proof -
  let ?out = "createPolyfillsLoaderScript polyfillFilename None polyfillsConfig funcName publicPath"
  let ?name = "default_arg ''loadPolyfills'' funcName"
  have out: "?out = ''function '' @ ?name @ ''() {'' @ loadScriptFunction @
     ''return Promise.all(polyfills);\<newline>}''"
    by (simp add: createPolyfillsLoaderScript_def createPolyfillsLoader_def)
  have "?out = (''function '' @ ?name @ ''() {'' @ loadScriptFunction) @
     ''return Promise.all(polyfills);'' @ ''\<newline>}''"
    by (simp add: out)
  then have ret: "sublist ''return Promise.all(polyfills);'' ?out"
    unfolding sublist_def by blast
  have decl: "\<not> sublist ''var polyfills = [];'' ?out" if "CHR ''='' \<notin> set ?name"
  proof
    assume "sublist ''var polyfills = [];'' ?out"
    then have "set ''var polyfills = [];'' \<subseteq> set ?out"
      by (rule set_mono_sublist)
    then have "CHR ''='' \<in> set ?out" by simp
    with that show False
      by (simp add: out loadScriptFunction_def)
  qed
  from out ret decl show ?thesis by blast
qed

theorem createPolyfillsLoaderScript_absent_witness:
  "CHR ''='' \<notin> set (default_arg ''loadPolyfills'' None) \<and>
   \<not> sublist ''var polyfills = [];''
     (createPolyfillsLoaderScript (\<lambda>(polyfill :: Polyfill) (polyfillsConfig :: unit). [])
        None () None [])"
proof -
  have name_ok: "CHR ''='' \<notin> set (default_arg ''loadPolyfills'' None)"
    by (simp add: default_arg_def)
  from createPolyfillsLoaderScript_absent
    [of "\<lambda>(polyfill :: Polyfill) (polyfillsConfig :: unit). []" "()" None "[]"] name_ok
  show ?thesis by blast
qed

subsection \<open>The body of loadEntries\<close>














end
